theory Spec2Isabelle
  imports Complex_Main
begin

section \<open>JavaScript values as the handlers see them\<close>

text \<open>
  The three serverless handlers of the repository (\<^verbatim>\<open>create-seller.js\<close>, and the
  seller-management and insight-generation handlers of \<^verbatim>\<open>manage-seller.js\<close>) read
  JSON documents, test values for truthiness, and call \<^verbatim>\<open>fetch\<close>.  A JavaScript value
  is one of the seven shapes below.  An object is the list of its own properties, each
  name once.  A string is a list of code units; the \<open>char\<close> type covers the code
  units below 256, which includes every literal of the source.
  A number is a double: not-a-number, an infinity (\<open>True\<close> for the positive one), or a
  finite rational (negative zero is identified with zero: both are falsy and both print
  as \<^verbatim>\<open>0\<close>).
\<close>

datatype jsnum = NaN | Infinity bool | Finite rat

datatype jsval =
    Undefined
  | Null
  | Bool bool
  | Num jsnum
  | Str string
  | Arr "jsval list"
  | Obj "(string \<times> jsval) list"

text \<open>An exception object; the handlers only ever read its \<^verbatim>\<open>message\<close>.\<close>

datatype js_error = Error (message: string)

text \<open>
  The four situations in which the engine itself raises a TypeError in this code:
  destructuring a nullish value, reading a property of one, iterating over a value
  that is not iterable, and converting to a string an object that has no usable
  \<^verbatim>\<open>toString\<close>.
\<close>

datatype fault = Destructure_nullish | Read_of_nullish | Not_iterable | Not_convertible

text \<open>What \<^verbatim>\<open>fetch(url, options)\<close> is given.\<close>

record request =
  url :: string
  "method" :: "string option"
  req_headers :: "(string \<times> string) list"
  req_body :: "string option"

text \<open>
  What an awaited \<^verbatim>\<open>fetch\<close> resolves to: the status and the outcome of reading the
  body (\<^verbatim>\<open>res.text()\<close>), which may itself reject.
\<close>

record http_response =
  status :: nat
  body_text :: "js_error + string"

text \<open>\<^verbatim>\<open>res.ok\<close> is true for the statuses 200 to 299.\<close>

definition ok :: "http_response \<Rightarrow> bool" where
  "ok res = (200 \<le> status res \<and> status res \<le> 299)"

text \<open>
  The builtins of the runtime that the handlers call.  They are parameters of the model:
  \<^verbatim>\<open>JSON.parse\<close> either throws or gives a value, \<^verbatim>\<open>JSON.stringify\<close> and the
  printing of numbers give strings, \<^verbatim>\<open>encodeURIComponent\<close> on a string either throws
  (a URIError) or gives the encoded string, \<open>fault_message\<close> is the text the engine
  puts in its own TypeErrors, and \<open>fetch\<close> is the network: given every request issued
  so far, the last one being the current one, it rejects or resolves to a response.
\<close>

record runtime =
  JSON_parse :: "string \<Rightarrow> js_error + jsval"
  JSON_stringify :: "jsval \<Rightarrow> string"
  Number_toString :: "jsnum \<Rightarrow> string"
  encodeURIComponent :: "string \<Rightarrow> js_error + string"
  fault_message :: "fault \<Rightarrow> string"
  fetch :: "request list \<Rightarrow> js_error + http_response"

text \<open>\<^verbatim>\<open>process.env\<close>: a variable is unset or a string.\<close>

record env =
  SUPABASE_URL :: "string option"
  SUPABASE_SERVICE_ROLE_KEY :: "string option"
  GEMINI_API_KEY :: "string option"

text \<open>The event the platform passes to a handler.\<close>

record event =
  httpMethod :: string
  event_body :: jsval
  queryStringParameters :: "(string \<rightharpoonup> string) option"

text \<open>What a handler returns; \<open>headers\<close> is \<open>None\<close> when the object literal has none.\<close>

record response =
  statusCode :: nat
  headers :: "(string \<times> string) list option"
  body :: string

subsection \<open>Truthiness, \<^verbatim>\<open>||\<close>, property reads, string conversion\<close>

fun truthy :: "jsval \<Rightarrow> bool" where
  "truthy Undefined = False"
| "truthy Null = False"
| "truthy (Bool b) = b"
| "truthy (Num NaN) = False"
| "truthy (Num (Infinity _)) = True"
| "truthy (Num (Finite r)) = (r \<noteq> 0)"
| "truthy (Str s) = (s \<noteq> [])"
| "truthy (Arr _) = True"
| "truthy (Obj _) = True"

text \<open>\<^verbatim>\<open>a || b\<close>\<close>

definition or_else :: "jsval \<Rightarrow> jsval \<Rightarrow> jsval" where
  "or_else a b = (if truthy a then a else b)"

text \<open>\<^verbatim>\<open>!x\<close> on an environment variable or a query parameter.\<close>

definition unset :: "string option \<Rightarrow> bool" where
  "unset v = (case v of None \<Rightarrow> True | Some s \<Rightarrow> s = [])"

definition nullish :: "jsval \<Rightarrow> bool" where
  "nullish v = (v = Undefined \<or> v = Null)"

text \<open>
  \<^verbatim>\<open>v.k\<close> for a value that is not nullish and a name \<open>k\<close> that is neither an index
  nor a builtin property (the handlers read \<^verbatim>\<open>email\<close>, \<^verbatim>\<open>password\<close>, \<^verbatim>\<open>id\<close>,
  \<^verbatim>\<open>user\<close>, \<^verbatim>\<open>prompt\<close>, \<^verbatim>\<open>name\<close>, \<^verbatim>\<open>category\<close>, \<^verbatim>\<open>description\<close>,
  \<^verbatim>\<open>salesSummary\<close>, \<^verbatim>\<open>candidates\<close>, \<^verbatim>\<open>content\<close>, \<^verbatim>\<open>parts\<close>, \<^verbatim>\<open>text\<close>):
  an object gives its own property, every other value gives \<^verbatim>\<open>undefined\<close>.
  On a nullish value the engine throws; the callers test that first.
\<close>

fun get_prop :: "jsval \<Rightarrow> string \<Rightarrow> jsval" where
  "get_prop (Obj kvs) k = (case map_of kvs k of None \<Rightarrow> Undefined | Some v \<Rightarrow> v)"
| "get_prop _ k = Undefined"

text \<open>\<^verbatim>\<open>v?.k\<close>\<close>

definition opt_prop :: "jsval \<Rightarrow> string \<Rightarrow> jsval" where
  "opt_prop v k = (if nullish v then Undefined else get_prop v k)"

text \<open>
  \<^verbatim>\<open>v?.[0]\<close>: the first element of an array, the first code unit of a string, the
  property \<^verbatim>\<open>"0"\<close> of an object.
\<close>

fun opt_at0 :: "jsval \<Rightarrow> jsval" where
  "opt_at0 (Arr xs) = (case xs of [] \<Rightarrow> Undefined | x # _ \<Rightarrow> x)"
| "opt_at0 (Str s) = (case s of [] \<Rightarrow> Undefined | c # _ \<Rightarrow> Str [c])"
| "opt_at0 (Obj kvs) = get_prop (Obj kvs) ''0''"
| "opt_at0 _ = Undefined"

text \<open>\<^verbatim>\<open>xs.join(",")\<close> on strings already converted.\<close>

fun join_comma :: "string list \<Rightarrow> string" where
  "join_comma [] = []"
| "join_comma [s] = s"
| "join_comma (s # t # ss) = s @ '','' @ join_comma (t # ss)"

text \<open>Sequencing: the second step runs on the result of the first unless that threw.\<close>

definition and_then :: "js_error + 'a \<Rightarrow> ('a \<Rightarrow> js_error + 'b) \<Rightarrow> js_error + 'b" where
  "and_then r f = (case r of Inl e \<Rightarrow> Inl e | Inr x \<Rightarrow> f x)"

text \<open>The results of steps run from left to right, or the first exception among them.\<close>

fun first_error :: "(js_error + 'a) list \<Rightarrow> js_error + 'a list" where
  "first_error [] = Inr []"
| "first_error (Inl e # rs) = Inl e"
| "first_error (Inr x # rs) = (case first_error rs of Inl e \<Rightarrow> Inl e | Inr xs \<Rightarrow> Inr (x # xs))"

text \<open>
  The conversion that a template literal, \<^verbatim>\<open>JSON.parse\<close> and
  \<^verbatim>\<open>encodeURIComponent\<close> apply to a value.  An array prints its elements joined by
  commas, with nothing for a nullish element.  An object of a JSON document has the
  \<^verbatim>\<open>toString\<close> of \<^verbatim>\<open>Object.prototype\<close>, which prints \<^verbatim>\<open>[object Object]\<close>, unless
  it has a property of that name of its own: that one is not a function, neither
  \<^verbatim>\<open>toString\<close> nor \<^verbatim>\<open>valueOf\<close> then gives a primitive, and the engine throws a
  TypeError.
\<close>

fun ToString :: "runtime \<Rightarrow> jsval \<Rightarrow> js_error + string" where
  "ToString rt Undefined = Inr ''undefined''"
| "ToString rt Null = Inr ''null''"
| "ToString rt (Bool b) = Inr (if b then ''true'' else ''false'')"
| "ToString rt (Num n) = Inr (Number_toString rt n)"
| "ToString rt (Str s) = Inr s"
| "ToString rt (Arr xs) =
     (case first_error
             (map (\<lambda>x. if x = Undefined \<or> x = Null then Inr [] else ToString rt x) xs) of
        Inl e \<Rightarrow> Inl e
      | Inr ss \<Rightarrow> Inr (join_comma ss))"
| "ToString rt (Obj kvs) =
     (case map_of kvs ''toString'' of
        None \<Rightarrow> Inr ''[object Object]''
      | Some _ \<Rightarrow> Inl (Error (fault_message rt Not_convertible)))"

text \<open>\<^verbatim>\<open>JSON.parse(v)\<close>: the argument is converted to a string first.\<close>

definition parse :: "runtime \<Rightarrow> jsval \<Rightarrow> js_error + jsval" where
  "parse rt v = and_then (ToString rt v) (JSON_parse rt)"

text \<open>
  \<^verbatim>\<open>await fetch(url, options)\<close>: the request is appended to the log of outbound calls
  and the network answers.
\<close>

definition do_fetch ::
  "runtime \<Rightarrow> request \<Rightarrow> request list \<Rightarrow> (js_error + http_response) \<times> request list" where
  "do_fetch rt req calls = (fetch rt (calls @ [req]), calls @ [req])"

text \<open>\<^verbatim>\<open>await res.json()\<close>\<close>

definition res_json :: "runtime \<Rightarrow> http_response \<Rightarrow> js_error + jsval" where
  "res_json rt res = (case body_text res of Inl e \<Rightarrow> Inl e | Inr t \<Rightarrow> JSON_parse rt t)"

text \<open>\<^verbatim>\<open>{ statusCode: code, body: JSON.stringify(v) }\<close>\<close>

definition json_response :: "runtime \<Rightarrow> nat \<Rightarrow> jsval \<Rightarrow> response" where
  "json_response rt code v = \<lparr>statusCode = code, headers = None, body = JSON_stringify rt v\<rparr>"

text \<open>
  The test \<^verbatim>\<open>!SUPABASE_URL || !SERVICE_KEY\<close> that both backend handlers make: the base
  URL and the service key when both are set and not empty.
\<close>

definition backend_config :: "env \<Rightarrow> (string \<times> string) option" where
  "backend_config en =
     (if unset (SUPABASE_URL en) \<or> unset (SUPABASE_SERVICE_ROLE_KEY en) then None
      else case (SUPABASE_URL en, SUPABASE_SERVICE_ROLE_KEY en) of
             (Some u, Some k) \<Rightarrow> Some (u, k)
           | _ \<Rightarrow> None)"

text \<open>The \<^verbatim>\<open>apikey\<close> and \<^verbatim>\<open>Authorization\<close> headers sent with every backend call.\<close>

definition auth_headers :: "string \<Rightarrow> (string \<times> string) list" where
  "auth_headers k = [(''apikey'', k), (''Authorization'', ''Bearer '' @ k)]"

section \<open>The seller-creation handler (\<^verbatim>\<open>create-seller.js\<close>)\<close>

definition msg_missing_fields :: string where
  "msg_missing_fields = ''Email y contrase'' @ CHR 0xF1 # ''a son obligatorios''"

definition msg_upsert_failed :: string where
  "msg_upsert_failed = ''Fall'' @ CHR 0xF3 # '' al asignar rol seller''"

text \<open>Line 57: \<^verbatim>\<open>createJson?.user?.id || createJson?.id || null\<close>\<close>

definition created_id :: "jsval \<Rightarrow> jsval" where
  "created_id createJson =
     or_else (or_else (opt_prop (opt_prop createJson ''user'') ''id'') (opt_prop createJson ''id''))
       Null"

text \<open>Line 72: \<^verbatim>\<open>lookupJson?.[0]?.id || lookupJson?.user?.id || null\<close>\<close>

definition looked_up_id :: "jsval \<Rightarrow> jsval" where
  "looked_up_id lookupJson =
     or_else (or_else (opt_prop (opt_at0 lookupJson) ''id'') (opt_prop (opt_prop lookupJson ''user'') ''id''))
       Null"

definition create_request :: "runtime \<Rightarrow> string \<Rightarrow> string \<Rightarrow> jsval \<Rightarrow> jsval \<Rightarrow> request" where
  "create_request rt u k email password =
     \<lparr>url = u @ ''/auth/v1/admin/users'', method = Some ''POST'',
      req_headers = auth_headers k @ [(''Content-Type'', ''application/json'')],
      req_body = Some (JSON_stringify rt
        (Obj [(''email'', email), (''password'', password), (''email_confirm'', Bool True)]))\<rparr>"

text \<open>
  Line 64, \<^verbatim>\<open>encodeURIComponent(email)\<close>: the value is converted to a string and the
  string is encoded; either step may throw.
\<close>

definition encoded_email :: "runtime \<Rightarrow> jsval \<Rightarrow> js_error + string" where
  "encoded_email rt email = and_then (ToString rt email) (encodeURIComponent rt)"

definition lookup_request :: "string \<Rightarrow> string \<Rightarrow> string \<Rightarrow> request" where
  "lookup_request u k encoded =
     \<lparr>url = u @ ''/auth/v1/admin/users?email='' @ encoded,
      method = None, req_headers = auth_headers k, req_body = None\<rparr>"

definition upsert_request :: "runtime \<Rightarrow> string \<Rightarrow> string \<Rightarrow> jsval \<Rightarrow> request" where
  "upsert_request rt u k userId =
     \<lparr>url = u @ ''/rest/v1/profiles'', method = Some ''POST'',
      req_headers = auth_headers k @
        [(''Content-Type'', ''application/json''), (''Prefer'', ''resolution=merge-duplicates'')],
      req_body = Some (JSON_stringify rt (Obj [(''id'', userId), (''role'', Str ''seller'')]))\<rparr>"

text \<open>Step 3 (lines 84 to 99): upsert the profile with role seller and report.\<close>

definition upsert_profile ::
  "runtime \<Rightarrow> string \<Rightarrow> string \<Rightarrow> jsval \<Rightarrow> request list \<Rightarrow> (js_error + response) \<times> request list" where
  "upsert_profile rt u k userId calls =
     (case do_fetch rt (upsert_request rt u k userId) calls of
        (Inl e, calls') \<Rightarrow> (Inl e, calls')
      | (Inr upsertRes, calls') \<Rightarrow>
          if \<not> ok upsertRes then
            (case body_text upsertRes of
               Inl e \<Rightarrow> (Inl e, calls')
             | Inr errText \<Rightarrow>
                 (Inr (json_response rt 500
                    (Obj [(''error'', Str msg_upsert_failed), (''detail'', Str errText)])), calls'))
          else
            (Inr (json_response rt 200
               (Obj [(''message'', Str ''Vendedor creado''), (''userId'', userId)])), calls'))"

text \<open>
  Step 2, lines 64 to 75, once the URL of the lookup is built: fetch it and read the
  JSON of the answer (an exception there is not caught locally); without an identifier
  answer 422, otherwise go on to step 3.
\<close>

definition lookup_account ::
  "runtime \<Rightarrow> string \<Rightarrow> string \<Rightarrow> string \<Rightarrow> request list
     \<Rightarrow> (js_error + response) \<times> request list" where
  "lookup_account rt u k encoded calls =
     (case do_fetch rt (lookup_request u k encoded) calls of
        (Inl e, calls') \<Rightarrow> (Inl e, calls')
      | (Inr lookupRes, calls') \<Rightarrow>
          (case res_json rt lookupRes of
             Inl e \<Rightarrow> (Inl e, calls')
           | Inr lookupJson \<Rightarrow>
               if \<not> truthy (looked_up_id lookupJson) then
                 (Inr (json_response rt 422
                    (Obj [(''error'', Str ''No se pudo obtener ID de usuario'')])), calls')
               else upsert_profile rt u k (looked_up_id lookupJson) calls'))"

text \<open>
  Step 2 (lines 63 to 76): when the creation answered 422 or gave no identifier, look the
  account up by email; the email that cannot be converted or encoded throws before any
  lookup is sent.
\<close>

definition resolve_and_upsert ::
  "runtime \<Rightarrow> string \<Rightarrow> string \<Rightarrow> jsval \<Rightarrow> http_response \<Rightarrow> jsval \<Rightarrow> request list
     \<Rightarrow> (js_error + response) \<times> request list" where
  "resolve_and_upsert rt u k email createRes userId calls =
     (if status createRes = 422 \<or> \<not> truthy userId then
        (case encoded_email rt email of
           Inl e \<Rightarrow> (Inl e, calls)
         | Inr encoded \<Rightarrow> lookup_account rt u k encoded calls)
      else upsert_profile rt u k userId calls)"

text \<open>
  Step 1 (lines 42 to 57): create the account; a response whose body is not JSON counts
  as the empty object.
\<close>

definition create_account ::
  "runtime \<Rightarrow> string \<Rightarrow> string \<Rightarrow> jsval \<Rightarrow> jsval \<Rightarrow> request list
     \<Rightarrow> (js_error + response) \<times> request list" where
  "create_account rt u k email password calls =
     (case do_fetch rt (create_request rt u k email password) calls of
        (Inl e, calls') \<Rightarrow> (Inl e, calls')
      | (Inr createRes, calls') \<Rightarrow>
          (let createJson = (case res_json rt createRes of Inl _ \<Rightarrow> Obj [] | Inr j \<Rightarrow> j)
           in resolve_and_upsert rt u k email createRes (created_id createJson) calls'))"

text \<open>The body of the \<^verbatim>\<open>try\<close> block (lines 28 to 99); \<open>Inl\<close> is a thrown exception.\<close>

definition create_seller_try ::
  "runtime \<Rightarrow> env \<Rightarrow> event \<Rightarrow> request list \<Rightarrow> (js_error + response) \<times> request list" where
  "create_seller_try rt en ev calls =
     (case parse rt (or_else (event_body ev) (Str ''{}'')) of
        Inl e \<Rightarrow> (Inl e, calls)
      | Inr parsed \<Rightarrow>
          if nullish parsed then (Inl (Error (fault_message rt Destructure_nullish)), calls)
          else
            (let email = get_prop parsed ''email''; password = get_prop parsed ''password''
             in if \<not> truthy email \<or> \<not> truthy password then
                  (Inr (json_response rt 400 (Obj [(''error'', Str msg_missing_fields)])), calls)
                else
                  (case backend_config en of
                     None \<Rightarrow>
                       (Inr (json_response rt 500
                          (Obj [(''error'', Str ''Variables de entorno faltantes'')])), calls)
                   | Some (u, k) \<Rightarrow> create_account rt u k email password calls)))"

text \<open>
  \<^verbatim>\<open>exports.handler\<close> of \<^verbatim>\<open>create-seller.js\<close>: the response, and the log of outbound
  calls extended by those of this run.
\<close>

definition create_seller_handler ::
  "runtime \<Rightarrow> env \<Rightarrow> event \<Rightarrow> request list \<Rightarrow> response \<times> request list" where
  "create_seller_handler rt en ev calls =
     (if httpMethod ev \<noteq> ''POST'' then
        (json_response rt 405 (Obj [(''error'', Str ''Method not allowed'')]), calls)
      else
        (case create_seller_try rt en ev calls of
           (Inr r, calls') \<Rightarrow> (r, calls')
         | (Inl err, calls') \<Rightarrow>
             (json_response rt 500 (Obj [(''error'', Str (message err))]), calls')))"

section \<open>The seller-management handler (\<^verbatim>\<open>manage-seller.js\<close>, first handler)\<close>

text \<open>What the helper \<^verbatim>\<open>requestSupabase\<close> returns: \<^verbatim>\<open>{ status, ok, data }\<close>.\<close>

record supabase_result =
  res_status :: nat
  res_ok :: bool
  res_data :: jsval

text \<open>
  Lines 22 to 28: fetch, read the body as text, and parse it; a body that is not JSON is
  kept as the string it is.  A rejected fetch or body read is not caught.
\<close>

definition requestSupabase ::
  "runtime \<Rightarrow> request \<Rightarrow> request list \<Rightarrow> (js_error + supabase_result) \<times> request list" where
  "requestSupabase rt req calls =
     (case do_fetch rt req calls of
        (Inl e, calls') \<Rightarrow> (Inl e, calls')
      | (Inr res, calls') \<Rightarrow>
          (case body_text res of
             Inl e \<Rightarrow> (Inl e, calls')
           | Inr txt \<Rightarrow>
               (Inr \<lparr>res_status = status res, res_ok = ok res,
                     res_data = (case JSON_parse rt txt of Inl _ \<Rightarrow> Str txt | Inr d \<Rightarrow> d)\<rparr>,
                calls')))"

definition json_headers :: "string \<Rightarrow> (string \<times> string) list" where
  "json_headers k = auth_headers k @ [(''Content-Type'', ''application/json'')]"

definition profiles_request :: "string \<Rightarrow> string \<Rightarrow> request" where
  "profiles_request u k =
     \<lparr>url = u @ ''/rest/v1/profiles?role=eq.seller&select=id'', method = Some ''GET'',
      req_headers = json_headers k, req_body = None\<rparr>"

definition user_request :: "string \<Rightarrow> string \<Rightarrow> string \<Rightarrow> request" where
  "user_request u k uid_text =
     \<lparr>url = u @ ''/auth/v1/admin/users/'' @ uid_text, method = Some ''GET'',
      req_headers = json_headers k, req_body = None\<rparr>"

definition update_request :: "runtime \<Rightarrow> string \<Rightarrow> string \<Rightarrow> string \<Rightarrow> jsval \<Rightarrow> request" where
  "update_request rt u k ident_text password =
     \<lparr>url = u @ ''/auth/v1/admin/users/'' @ ident_text, method = Some ''PATCH'',
      req_headers = json_headers k,
      req_body = Some (JSON_stringify rt (Obj [(''password'', password)]))\<rparr>"

definition delete_request :: "string \<Rightarrow> string \<Rightarrow> string \<Rightarrow> request" where
  "delete_request u k ident =
     \<lparr>url = u @ ''/auth/v1/admin/users/'' @ ident, method = Some ''DELETE'',
      req_headers = json_headers k, req_body = None\<rparr>"

text \<open>
  What \<^verbatim>\<open>for (const seller of sellers)\<close> runs over: the elements of an array, the
  code units of a string; any other value is not iterable.
\<close>

fun iterate :: "jsval \<Rightarrow> jsval list option" where
  "iterate (Arr xs) = Some xs"
| "iterate (Str s) = Some (map (\<lambda>c. Str [c]) s)"
| "iterate _ = None"

text \<open>
  The loop of lines 45 to 58, with \<open>result\<close> the array built so far.  Reading
  \<^verbatim>\<open>seller.id\<close> of a nullish element throws, and so does the template of line 47
  on an identifier that cannot be converted to a string; nothing is sent then.
\<close>

fun collect_sellers ::
  "runtime \<Rightarrow> string \<Rightarrow> string \<Rightarrow> jsval list \<Rightarrow> jsval list \<Rightarrow> request list
     \<Rightarrow> (js_error + jsval list) \<times> request list" where
  "collect_sellers rt u k [] result calls = (Inr result, calls)"
| "collect_sellers rt u k (seller # rest) result calls =
     (if nullish seller then (Inl (Error (fault_message rt Read_of_nullish)), calls)
      else
        (let uid = get_prop seller ''id''
         in case ToString rt uid of
              Inl e \<Rightarrow> (Inl e, calls)
            | Inr uid_text \<Rightarrow>
                (case requestSupabase rt (user_request u k uid_text) calls of
                   (Inl e, calls') \<Rightarrow> (Inl e, calls')
                 | (Inr userRes, calls') \<Rightarrow>
                     collect_sellers rt u k rest
                       (if res_ok userRes \<and> truthy (res_data userRes)
                        then result @
                          [Obj [(''id'', uid), (''email'', get_prop (res_data userRes) ''email'')]]
                        else result)
                       calls')))"

text \<open>The GET branch, lines 29 to 60.\<close>

definition list_sellers ::
  "runtime \<Rightarrow> string \<Rightarrow> string \<Rightarrow> request list \<Rightarrow> (js_error + response) \<times> request list" where
  "list_sellers rt u k calls =
     (case requestSupabase rt (profiles_request u k) calls of
        (Inl e, calls') \<Rightarrow> (Inl e, calls')
      | (Inr profilesRes, calls') \<Rightarrow>
          if \<not> res_ok profilesRes then
            (Inr (json_response rt (res_status profilesRes)
               (Obj [(''message'', Str ''Error obteniendo perfiles''),
                     (''detail'', res_data profilesRes)])), calls')
          else
            (case iterate (res_data profilesRes) of
               None \<Rightarrow> (Inl (Error (fault_message rt Not_iterable)), calls')
             | Some sellers \<Rightarrow>
                 (case collect_sellers rt u k sellers [] calls' of
                    (Inl e, calls'') \<Rightarrow> (Inl e, calls'')
                  | (Inr result, calls'') \<Rightarrow>
                      (Inr (json_response rt 200 (Arr result)), calls''))))"

text \<open>
  The PUT and PATCH branch, lines 61 to 85.  Whatever \<^verbatim>\<open>JSON.parse\<close> throws is caught
  and the body counts as the empty object; the destructuring of \<^verbatim>\<open>null\<close> and the
  template of line 72 are outside that \<^verbatim>\<open>try\<close>.
\<close>

definition update_password ::
  "runtime \<Rightarrow> string \<Rightarrow> string \<Rightarrow> event \<Rightarrow> request list
     \<Rightarrow> (js_error + response) \<times> request list" where
  "update_password rt u k ev calls =
     (let parsed = (case parse rt (event_body ev) of Inl _ \<Rightarrow> Obj [] | Inr b \<Rightarrow> b)
      in if nullish parsed then (Inl (Error (fault_message rt Destructure_nullish)), calls)
         else
           (let ident = get_prop parsed ''id''; password = get_prop parsed ''password''
            in if \<not> truthy ident \<or> \<not> truthy password then
                 (Inr (json_response rt 400
                    (Obj [(''message'', Str ''id y password son obligatorios'')])), calls)
               else
                 (case ToString rt ident of
                    Inl e \<Rightarrow> (Inl e, calls)
                  | Inr ident_text \<Rightarrow>
                      (case requestSupabase rt (update_request rt u k ident_text password) calls of
                         (Inl e, calls') \<Rightarrow> (Inl e, calls')
                       | (Inr updateRes, calls') \<Rightarrow>
                           if \<not> res_ok updateRes then
                             (Inr (json_response rt (res_status updateRes)
                                (Obj [(''message'',
                                       Str (''Error actualizando contrase'' @ CHR 0xF1 # ''a'')),
                                      (''detail'', res_data updateRes)])), calls')
                           else
                             (Inr (json_response rt 200
                                (Obj [(''message'',
                                       Str (''Contrase'' @ CHR 0xF1 # ''a actualizada''))])),
                              calls')))))"

text \<open>
  Line 88 and 89: \<^verbatim>\<open>new URLSearchParams(event.queryStringParameters || {}).get('id')\<close>,
  which is \<^verbatim>\<open>null\<close> when there is no such parameter.
\<close>

definition query_id :: "event \<Rightarrow> string option" where
  "query_id ev = (case queryStringParameters ev of None \<Rightarrow> None | Some q \<Rightarrow> q ''id'')"

text \<open>The DELETE branch, lines 86 to 106.\<close>

definition delete_seller ::
  "runtime \<Rightarrow> string \<Rightarrow> string \<Rightarrow> event \<Rightarrow> request list
     \<Rightarrow> (js_error + response) \<times> request list" where
  "delete_seller rt u k ev calls =
     (case query_id ev of
        None \<Rightarrow>
          (Inr (json_response rt 400
             (Obj [(''message'', Str ''id es obligatorio para eliminar'')])), calls)
      | Some ident \<Rightarrow>
          if ident = [] then
            (Inr (json_response rt 400
               (Obj [(''message'', Str ''id es obligatorio para eliminar'')])), calls)
          else
            (case requestSupabase rt (delete_request u k ident) calls of
               (Inl e, calls') \<Rightarrow> (Inl e, calls')
             | (Inr deleteRes, calls') \<Rightarrow>
                 if \<not> res_ok deleteRes then
                   (Inr (json_response rt (res_status deleteRes)
                      (Obj [(''message'', Str ''Error eliminando usuario''),
                            (''detail'', res_data deleteRes)])), calls')
                 else
                   (Inr (json_response rt 200 (Obj [(''message'', Str ''Vendedor eliminado'')])),
                    calls')))"

text \<open>
  \<^verbatim>\<open>exports.handler\<close> of the seller-management handler.  Nothing is caught here:
  \<open>Inl\<close> is the exception with which the returned promise rejects.
\<close>

definition manage_seller_handler ::
  "runtime \<Rightarrow> env \<Rightarrow> event \<Rightarrow> request list \<Rightarrow> (js_error + response) \<times> request list" where
  "manage_seller_handler rt en ev calls =
     (case backend_config en of
        None \<Rightarrow>
          (Inr (json_response rt 500
             (Obj [(''message'',
                    Str ''Faltan variables de entorno SUPABASE_URL o SERVICE_ROLE_KEY'')])), calls)
      | Some (u, k) \<Rightarrow>
          if httpMethod ev = ''GET'' then list_sellers rt u k calls
          else if httpMethod ev = ''PUT'' \<or> httpMethod ev = ''PATCH'' then
            update_password rt u k ev calls
          else if httpMethod ev = ''DELETE'' then delete_seller rt u k ev calls
          else
            (Inr (json_response rt 405
               (Obj [(''message'', Str (''M'' @ CHR 0xE9 # ''todo no permitido''))])), calls))"

section \<open>The insight-generation handler (\<^verbatim>\<open>manage-seller.js\<close>, second handler)\<close>

definition cors_headers :: "(string \<times> string) list" where
  "cors_headers =
     [(''Content-Type'', ''application/json''),
      (''Access-Control-Allow-Origin'', ''*''),
      (''Access-Control-Allow-Methods'', ''GET,POST,OPTIONS''),
      (''Access-Control-Allow-Headers'', ''Content-Type, Authorization'')]"

text \<open>\<^verbatim>\<open>{ statusCode: code, headers, body: b }\<close>\<close>

definition cors_response :: "nat \<Rightarrow> string \<Rightarrow> response" where
  "cors_response code b = \<lparr>statusCode = code, headers = Some cors_headers, body = b\<rparr>"

text \<open>The text of lines 128 to 132 around the four interpolated values, once converted.\<close>

definition mock_text :: "string \<Rightarrow> string \<Rightarrow> string \<Rightarrow> string \<Rightarrow> string" where
  "mock_text n c d s =
     ''Resumen (MOCK) para '' @ CHR 0x22 # n @ CHR 0x22 # '' ('' @ c @ ''):'' @ [CHR 0x0A] @
     ''- '' @ d @ [CHR 0x0A] @
     ''- Ventas del d'' @ CHR 0xED # ''a: '' @ s @ [CHR 0x0A] @
     ''Sugerencia: Optimiza t'' @ CHR 0xED # ''tulos e im'' @ CHR 0xE1 #
       ''genes para mejorar conversi'' @ CHR 0xF3 # ''n.''"

text \<open>
  Lines 128 to 132: the canned analysis.  The four interpolated values are converted in
  the order of the text, and the first that cannot be converted throws.
\<close>

definition mock_analysis ::
  "runtime \<Rightarrow> jsval \<Rightarrow> jsval \<Rightarrow> jsval \<Rightarrow> jsval \<Rightarrow> js_error + string" where
  "mock_analysis rt name category description salesSummary =
     and_then (ToString rt (or_else name (Str ''Producto''))) (\<lambda>n.
     and_then (ToString rt (or_else category (Str ''N/D''))) (\<lambda>c.
     and_then (ToString rt (or_else description
                 (Str (''Descripci'' @ CHR 0xF3 # ''n no provista'')))) (\<lambda>d.
     and_then (ToString rt (or_else salesSummary (Str ''N/D''))) (\<lambda>s.
       Inr (mock_text n c d s)))))"

text \<open>Lines 127 to 135: the answer in mock mode, or the exception of the template.\<close>

definition mock_reply ::
  "runtime \<Rightarrow> jsval \<Rightarrow> jsval \<Rightarrow> jsval \<Rightarrow> jsval \<Rightarrow> js_error + response" where
  "mock_reply rt name category description salesSummary =
     (case mock_analysis rt name category description salesSummary of
        Inl e \<Rightarrow> Inl e
      | Inr analysis \<Rightarrow>
          Inr (cors_response 200 (JSON_stringify rt
                 (Obj [(''analysis'', Str analysis), (''mode'', Str ''mock'')]))))"

text \<open>
  Lines 140 to 143: the caller's prompt when it is truthy; else the templated one, whose
  four interpolated values are converted in the order of the text.
\<close>

definition user_text ::
  "runtime \<Rightarrow> jsval \<Rightarrow> jsval \<Rightarrow> jsval \<Rightarrow> jsval \<Rightarrow> jsval \<Rightarrow> js_error + jsval" where
  "user_text rt prompt name category description salesSummary =
     (if truthy prompt then Inr prompt
      else
        and_then (ToString rt (or_else salesSummary (Str []))) (\<lambda>s.
        and_then (ToString rt (or_else name (Str []))) (\<lambda>n.
        and_then (ToString rt (or_else category (Str []))) (\<lambda>c.
        and_then (ToString rt (or_else description (Str []))) (\<lambda>d.
          Inr (Str (''Analiza estas ventas y redacta insights:'' @ [CHR 0x0A] @ s @ [CHR 0x0A] @
                    ''Producto: '' @ n @ '' | Categor'' @ CHR 0xED # ''a: '' @ c @
                    '' | Desc: '' @ d)))))))"

definition gemini_request :: "runtime \<Rightarrow> string \<Rightarrow> jsval \<Rightarrow> request" where
  "gemini_request rt api_key userText =
     \<lparr>url = ''https://generativelanguage.googleapis.com/v1beta/models/gemini-1.5-flash:generateContent?key=''
              @ api_key,
      method = Some ''POST'',
      req_headers = [(''Content-Type'', ''application/json'')],
      req_body = Some (JSON_stringify rt
        (Obj [(''contents'', Arr [Obj [(''parts'', Arr [Obj [(''text'', userText)]])]])]))\<rparr>"

text \<open>Line 157: \<^verbatim>\<open>data?.candidates?.[0]?.content?.parts?.[0]?.text || JSON.stringify(data)\<close>\<close>

definition candidate_text :: "runtime \<Rightarrow> jsval \<Rightarrow> jsval" where
  "candidate_text rt d =
     or_else
       (opt_prop (opt_at0 (opt_prop (opt_prop (opt_at0 (opt_prop d ''candidates'')) ''content'')
          ''parts'')) ''text'')
       (Str (JSON_stringify rt d))"

text \<open>Lines 137 to 159: the live call.\<close>

definition call_gemini ::
  "runtime \<Rightarrow> string \<Rightarrow> jsval \<Rightarrow> request list \<Rightarrow> (js_error + response) \<times> request list" where
  "call_gemini rt api_key userText calls =
     (case do_fetch rt (gemini_request rt api_key userText) calls of
        (Inl e, calls') \<Rightarrow> (Inl e, calls')
      | (Inr resp, calls') \<Rightarrow>
          if \<not> ok resp then
            (case body_text resp of
               Inl e \<Rightarrow> (Inl e, calls')
             | Inr err \<Rightarrow>
                 (Inr (cors_response (status resp) (JSON_stringify rt (Obj [(''error'', Str err)]))),
                  calls'))
          else
            (case res_json rt resp of
               Inl e \<Rightarrow> (Inl e, calls')
             | Inr d \<Rightarrow>
                 (Inr (cors_response 200 (JSON_stringify rt
                    (Obj [(''analysis'', candidate_text rt d), (''mode'', Str ''gemini'')]))),
                  calls')))"

text \<open>The body of the \<^verbatim>\<open>try\<close> block, lines 120 to 159.\<close>

definition insight_try ::
  "runtime \<Rightarrow> env \<Rightarrow> event \<Rightarrow> request list \<Rightarrow> (js_error + response) \<times> request list" where
  "insight_try rt en ev calls =
     (case parse rt (or_else (event_body ev) (Str ''{}'')) of
        Inl e \<Rightarrow> (Inl e, calls)
      | Inr parsed \<Rightarrow>
          if nullish parsed then (Inl (Error (fault_message rt Destructure_nullish)), calls)
          else
            (let prompt = get_prop parsed ''prompt''; name = get_prop parsed ''name'';
                 category = get_prop parsed ''category'';
                 description = get_prop parsed ''description'';
                 salesSummary = get_prop parsed ''salesSummary''
             in case GEMINI_API_KEY en of
                  None \<Rightarrow> (mock_reply rt name category description salesSummary, calls)
                | Some api_key \<Rightarrow>
                    if api_key = [] then
                      (mock_reply rt name category description salesSummary, calls)
                    else
                      (case user_text rt prompt name category description salesSummary of
                         Inl e \<Rightarrow> (Inl e, calls)
                       | Inr userText \<Rightarrow> call_gemini rt api_key userText calls)))"

text \<open>\<^verbatim>\<open>exports.handler\<close> of the insight-generation handler.\<close>

definition insight_handler ::
  "runtime \<Rightarrow> env \<Rightarrow> event \<Rightarrow> request list \<Rightarrow> response \<times> request list" where
  "insight_handler rt en ev calls =
     (if httpMethod ev = ''OPTIONS'' then (cors_response 200 [], calls)
      else
        (case insight_try rt en ev calls of
           (Inr r, calls') \<Rightarrow> (r, calls')
         | (Inl e, calls') \<Rightarrow>
             (cors_response 500 (JSON_stringify rt (Obj [(''error'', Str (message e))])), calls')))"

section \<open>A runtime for the examples\<close>

text \<open>
  The theorems below hold for every runtime.  Their examples run on this one: its
  \<^verbatim>\<open>JSON.parse\<close> knows the documents and the malformed texts listed (every other
  string, which no example has, it rejects), its \<^verbatim>\<open>JSON.stringify\<close> and
  \<^verbatim>\<open>encodeURIComponent\<close> follow the standard on the strings of this model, numbers
  print as integers (a fraction, which no example has, as a quotient), the engine's
  TypeErrors have a generic wording, and the network answers the n-th request with the
  n-th reply of a script.
\<close>

text \<open>The documents \<^verbatim>\<open>JSON.parse\<close> knows, each with its value.\<close>

definition sample_documents :: "(string \<times> jsval) list" where
  \<open>sample_documents =
     [(''{}'', Obj []),
      (''null'', Null),
      (''{"email":"a@b.com","password":"x12345"}'',
         Obj [(''email'', Str ''a@b.com''), (''password'', Str ''x12345'')]),
      (''{"email":"a@b.com"}'', Obj [(''email'', Str ''a@b.com'')]),
      (''{"email":{"toString":1},"password":"x12345"}'',
         Obj [(''email'', Obj [(''toString'', Num (Finite 1))]), (''password'', Str ''x12345'')]),
      (''{"name":{"toString":1}}'', Obj [(''name'', Obj [(''toString'', Num (Finite 1))])]),
      (''[{"id":{"toString":1}}]'', Arr [Obj [(''id'', Obj [(''toString'', Num (Finite 1))])]]),
      (''{"code":422,"msg":"email_exists"}'',
         Obj [(''code'', Num (Finite 422)), (''msg'', Str ''email_exists'')]),
      (''{"users":[]}'', Obj [(''users'', Arr [])]),
      (''[{"id":"u1"},{"id":"u2"},{"id":"u3"}]'',
         Arr [Obj [(''id'', Str ''u1'')], Obj [(''id'', Str ''u2'')], Obj [(''id'', Str ''u3'')]]),
      (''{"id":"u1","email":"ana@shop.com"}'',
         Obj [(''id'', Str ''u1''), (''email'', Str ''ana@shop.com'')]),
      (''{"id":"u3","email":"luis@shop.com"}'',
         Obj [(''id'', Str ''u3''), (''email'', Str ''luis@shop.com'')])]\<close>

text \<open>Text that is not JSON, each with the message of the SyntaxError it gets.\<close>

definition sample_rejected :: "(string \<times> string) list" where
  \<open>sample_rejected =
     [(''{"name":'', ''Unexpected end of JSON input''),
      (''{"email":'', ''Unexpected end of JSON input''),
      (''User not found'', ''Unexpected token U in JSON at position 0''),
      (''Bad Gateway'', ''Unexpected token B in JSON at position 0'')]\<close>

definition sample_parse :: "string \<Rightarrow> js_error + jsval" where
  "sample_parse s =
     (case map_of sample_documents s of
        Some v \<Rightarrow> Inr v
      | None \<Rightarrow>
          Inl (Error (case map_of sample_rejected s of
                        Some m \<Rightarrow> m
                      | None \<Rightarrow> ''Unexpected token in JSON'')))"

text \<open>
  \<^verbatim>\<open>JSON.stringify\<close>: a string is quoted, with the quote, the backslash and the control
  characters escaped; a property whose value is \<^verbatim>\<open>undefined\<close> is left out of an object;
  \<^verbatim>\<open>undefined\<close> in an array, and a number that is not finite, print as \<^verbatim>\<open>null\<close>.
\<close>

definition escape_char :: "char \<Rightarrow> string" where
  "escape_char c =
     (let n = (of_char c :: nat)
      in if c = CHR 0x22 then [CHR 0x5C, CHR 0x22]
         else if c = CHR 0x5C then [CHR 0x5C, CHR 0x5C]
         else if n = 8 then [CHR 0x5C, CHR ''b'']
         else if n = 9 then [CHR 0x5C, CHR ''t'']
         else if n = 10 then [CHR 0x5C, CHR ''n'']
         else if n = 12 then [CHR 0x5C, CHR ''f'']
         else if n = 13 then [CHR 0x5C, CHR ''r'']
         else if n < 32 then
           [CHR 0x5C, CHR ''u'', CHR ''0'', CHR ''0'',
            ''0123456789abcdef'' ! (n div 16), ''0123456789abcdef'' ! (n mod 16)]
         else [c])"

definition quote :: "string \<Rightarrow> string" where
  "quote s = CHR 0x22 # concat (map escape_char s) @ [CHR 0x22]"

fun show_nat :: "nat \<Rightarrow> string" where
  "show_nat n =
     (if n < 10 then [''0123456789'' ! n]
      else show_nat (n div 10) @ [''0123456789'' ! (n mod 10)])"

declare show_nat.simps [simp del]

definition show_int :: "int \<Rightarrow> string" where
  "show_int i = (if i < 0 then CHR ''-'' # show_nat (nat (- i)) else show_nat (nat i))"

definition sample_number :: "jsnum \<Rightarrow> string" where
  "sample_number n =
     (case n of
        NaN \<Rightarrow> ''NaN''
      | Infinity b \<Rightarrow> (if b then ''Infinity'' else ''-Infinity'')
      | Finite r \<Rightarrow>
          (case quotient_of r of
             (p, q) \<Rightarrow> if q = 1 then show_int p else show_int p @ ''/'' @ show_int q))"

fun sample_stringify :: "jsval \<Rightarrow> string" where
  "sample_stringify Undefined = ''null''"
| "sample_stringify Null = ''null''"
| "sample_stringify (Bool b) = (if b then ''true'' else ''false'')"
| "sample_stringify (Num n) = (case n of Finite r \<Rightarrow> sample_number n | _ \<Rightarrow> ''null'')"
| "sample_stringify (Str s) = quote s"
| "sample_stringify (Arr xs) = ''['' @ join_comma (map sample_stringify xs) @ '']''"
| "sample_stringify (Obj kvs) =
     ''{'' @ join_comma (map (\<lambda>(k, v). quote k @ '':'' @ sample_stringify v)
                          (filter (\<lambda>(k, v). v \<noteq> Undefined) kvs)) @ ''}''"

text \<open>
  \<^verbatim>\<open>encodeURIComponent\<close>: every code unit but the unreserved ones is replaced by the
  percent-escapes of its UTF-8 bytes.  The strings of this model have no lone surrogate,
  the one thing on which it throws.
\<close>

definition hex_digit :: "nat \<Rightarrow> char" where
  "hex_digit d = ''0123456789ABCDEF'' ! d"

definition percent :: "nat \<Rightarrow> string" where
  "percent b = [CHR ''%'', hex_digit (b div 16), hex_digit (b mod 16)]"

definition unreserved :: "char \<Rightarrow> bool" where
  "unreserved c =
     (c \<in> set ''ABCDEFGHIJKLMNOPQRSTUVWXYZabcdefghijklmnopqrstuvwxyz0123456789-_.!~*()''
      \<or> c = CHR 0x27)"

definition encode_char :: "char \<Rightarrow> string" where
  "encode_char c =
     (let n = (of_char c :: nat)
      in if unreserved c then [c]
         else if n < 128 then percent n
         else percent (192 + n div 64) @ percent (128 + n mod 64))"

definition sample_encode :: "string \<Rightarrow> js_error + string" where
  "sample_encode s = Inr (concat (map encode_char s))"

text \<open>The messages of the engine's TypeErrors.\<close>

definition sample_fault :: "fault \<Rightarrow> string" where
  "sample_fault f =
     (case f of
        Destructure_nullish \<Rightarrow> ''Cannot destructure property of null''
      | Read_of_nullish \<Rightarrow> ''Cannot read properties of null''
      | Not_iterable \<Rightarrow> ''sellers is not iterable''
      | Not_convertible \<Rightarrow> ''Cannot convert object to primitive value'')"

text \<open>The network: the n-th request gets the n-th reply; beyond the script, fetch rejects.\<close>

definition scripted :: "(js_error + http_response) list \<Rightarrow> request list \<Rightarrow> js_error + http_response" where
  "scripted replies calls =
     (if 0 < length calls \<and> length calls \<le> length replies then replies ! (length calls - 1)
      else Inl (Error ''fetch failed''))"

definition sample_runtime :: "(js_error + http_response) list \<Rightarrow> runtime" where
  "sample_runtime replies =
     \<lparr>JSON_parse = sample_parse, JSON_stringify = sample_stringify,
      Number_toString = sample_number, encodeURIComponent = sample_encode,
      fault_message = sample_fault, fetch = scripted replies\<rparr>"

text \<open>An environment with nothing configured, and one with the backend configured.\<close>

definition bare_env :: env where
  "bare_env = \<lparr>SUPABASE_URL = None, SUPABASE_SERVICE_ROLE_KEY = None, GEMINI_API_KEY = None\<rparr>"

definition backend_env :: env where
  "backend_env =
     \<lparr>SUPABASE_URL = Some ''https://xyz.supabase.co'',
      SUPABASE_SERVICE_ROLE_KEY = Some ''service-key'', GEMINI_API_KEY = None\<rparr>"

text \<open>A POST with the given body and no query parameters.\<close>

definition post_event :: "jsval \<Rightarrow> event" where
  "post_event b = \<lparr>httpMethod = ''POST'', event_body = b, queryStringParameters = None\<rparr>"

section \<open>The list operation in the words of the specification\<close>

text \<open>
  An account lookup has succeeded when it answered with a success status and a body
  that is a truthy value.
\<close>

definition lookup_succeeded :: "supabase_result \<Rightarrow> bool" where
  "lookup_succeeded r = (res_ok r \<and> truthy (res_data r))"

text \<open>
  The join of the profile records with the results of their account lookups: in the
  order of the profile records, one pair of the profile's identifier and the account's
  email for each profile whose lookup succeeded, and nothing for the others.
\<close>

definition seller_pairs :: "jsval list \<Rightarrow> supabase_result list \<Rightarrow> jsval list" where
  "seller_pairs sellers lookups =
     map (\<lambda>(s, r). Obj [(''id'', get_prop s ''id''), (''email'', get_prop (res_data r) ''email'')])
       (filter (\<lambda>(s, r). lookup_succeeded r) (zip sellers lookups))"

text \<open>
  The account lookups that a run of the list operation issues for the profiles with
  these identifiers, already converted to strings.
\<close>

definition lookup_calls :: "string \<Rightarrow> string \<Rightarrow> string list \<Rightarrow> request list" where
  "lookup_calls u k uids = map (user_request u k) uids"

section \<open>Properties of the handlers\<close>

lemmas sample_defs = sample_runtime_def sample_parse_def sample_documents_def
  sample_rejected_def sample_fault_def bare_env_def backend_env_def post_event_def
  scripted_def quote_def escape_char_def and_then_def

lemma backend_config_None:
  "backend_config en = None \<longleftrightarrow> unset (SUPABASE_URL en) \<or> unset (SUPABASE_SERVICE_ROLE_KEY en)"
  by (auto simp: backend_config_def unset_def split: option.splits)

lemma backend_config_backend_env:
  "backend_config backend_env = Some (''https://xyz.supabase.co'', ''service-key'')"
  by (simp add: backend_config_def backend_env_def unset_def)

lemma truthy_prop_not_nullish: "truthy (get_prop v k) \<Longrightarrow> \<not> nullish v"
  by (cases v) (simp_all add: nullish_def)

lemma snd_requestSupabase: "snd (requestSupabase rt req calls) = calls @ [req]"
  by (simp add: requestSupabase_def do_fetch_def split: sum.splits)

lemma snd_upsert_profile:
  "snd (upsert_profile rt u k uid calls) = calls @ [upsert_request rt u k uid]"
  by (simp add: upsert_profile_def do_fetch_def split: sum.splits)

subsection \<open>Insight generation\<close>

lemma insight_try_headers:
  "insight_try rt en ev calls = (Inr r, calls') \<Longrightarrow> headers r = Some cors_headers"
  by (auto simp: insight_try_def mock_reply_def call_gemini_def cors_response_def do_fetch_def
      Let_def split: sum.splits if_splits option.splits)

lemma insight_try_no_key:
  "unset (GEMINI_API_KEY en) \<Longrightarrow> snd (insight_try rt en ev calls) = calls"
  by (auto simp: insight_try_def unset_def Let_def split: sum.splits option.splits)

lemma mock_reply_converted:
  "ToString rt (or_else name (Str ''Producto'')) = Inr n \<Longrightarrow>
   ToString rt (or_else category (Str ''N/D'')) = Inr c \<Longrightarrow>
   ToString rt (or_else description (Str (''Descripci'' @ CHR 0xF3 # ''n no provista''))) = Inr d \<Longrightarrow>
   ToString rt (or_else salesSummary (Str ''N/D'')) = Inr s \<Longrightarrow>
   mock_reply rt name category description salesSummary =
     Inr (cors_response 200 (JSON_stringify rt
            (Obj [(''analysis'', Str (mock_text n c d s)), (''mode'', Str ''mock'')])))"
  by (simp add: mock_reply_def mock_analysis_def and_then_def)

text \<open>
  C1, as the code has it.  With no API key configured the handler never calls out,
  whatever the request.  It answers 200 with the canned analysis and mode \<^verbatim>\<open>mock\<close>
  when the request is not a preflight, its body (\<^verbatim>\<open>{}\<close> standing in for an absent or
  empty one) parses to a JSON value other than \<^verbatim>\<open>null\<close>, and the name, the category,
  the description and the sales summary of that value, or the defaults that stand in
  for the falsy ones, can be converted to strings.
\<close>

theorem insight_mock_without_key:
  "unset (GEMINI_API_KEY en) \<Longrightarrow>
   snd (insight_handler rt en ev calls) = calls \<and>
   (httpMethod ev \<noteq> ''OPTIONS'' \<and>
    parse rt (or_else (event_body ev) (Str ''{}'')) = Inr parsed \<and> \<not> nullish parsed \<and>
    ToString rt (or_else (get_prop parsed ''name'') (Str ''Producto'')) = Inr n \<and>
    ToString rt (or_else (get_prop parsed ''category'') (Str ''N/D'')) = Inr c \<and>
    ToString rt (or_else (get_prop parsed ''description'')
                   (Str (''Descripci'' @ CHR 0xF3 # ''n no provista''))) = Inr d \<and>
    ToString rt (or_else (get_prop parsed ''salesSummary'') (Str ''N/D'')) = Inr s \<longrightarrow>
    fst (insight_handler rt en ev calls) =
      cors_response 200 (JSON_stringify rt
        (Obj [(''analysis'', Str (mock_text n c d s)), (''mode'', Str ''mock'')])))"
proof (intro conjI impI)
  assume nokey: "unset (GEMINI_API_KEY en)"
  show "snd (insight_handler rt en ev calls) = calls"
    using insight_try_no_key [OF nokey, of rt ev calls]
    by (cases "insight_try rt en ev calls") (auto simp: insight_handler_def split: sum.splits)
next
  assume nokey: "unset (GEMINI_API_KEY en)"
    and req: "httpMethod ev \<noteq> ''OPTIONS'' \<and>
      parse rt (or_else (event_body ev) (Str ''{}'')) = Inr parsed \<and> \<not> nullish parsed \<and>
      ToString rt (or_else (get_prop parsed ''name'') (Str ''Producto'')) = Inr n \<and>
      ToString rt (or_else (get_prop parsed ''category'') (Str ''N/D'')) = Inr c \<and>
      ToString rt (or_else (get_prop parsed ''description'')
                     (Str (''Descripci'' @ CHR 0xF3 # ''n no provista''))) = Inr d \<and>
      ToString rt (or_else (get_prop parsed ''salesSummary'') (Str ''N/D'')) = Inr s"
  have reply: "mock_reply rt (get_prop parsed ''name'') (get_prop parsed ''category'')
      (get_prop parsed ''description'') (get_prop parsed ''salesSummary'') =
      Inr (cors_response 200 (JSON_stringify rt
            (Obj [(''analysis'', Str (mock_text n c d s)), (''mode'', Str ''mock'')])))"
    using req by (intro mock_reply_converted) simp_all
  show "fst (insight_handler rt en ev calls) =
      cors_response 200 (JSON_stringify rt
        (Obj [(''analysis'', Str (mock_text n c d s)), (''mode'', Str ''mock'')]))"
    using nokey req
    by (auto simp: insight_handler_def insight_try_def reply unset_def Let_def
        split: option.splits)
qed

theorem insight_mock_without_key_witness:
  "unset (GEMINI_API_KEY bare_env) \<and>
   httpMethod (post_event Undefined) \<noteq> ''OPTIONS'' \<and>
   parse (sample_runtime []) (or_else (event_body (post_event Undefined)) (Str ''{}'')) = Inr (Obj []) \<and>
   ToString (sample_runtime []) (or_else (get_prop (Obj []) ''name'') (Str ''Producto''))
     = Inr ''Producto'' \<and>
   insight_handler (sample_runtime []) bare_env (post_event Undefined) [] =
     (cors_response 200 (JSON_stringify (sample_runtime [])
        (Obj [(''analysis'',
               Str (mock_text ''Producto'' ''N/D'' (''Descripci'' @ CHR 0xF3 # ''n no provista'')
                      ''N/D'')),
              (''mode'', Str ''mock'')])), [])"
proof -
  have k: "unset (GEMINI_API_KEY bare_env)"
    by (simp add: unset_def bare_env_def)
  have p: "parse (sample_runtime []) (or_else (event_body (post_event Undefined)) (Str ''{}''))
      = Inr (Obj [])"
    by (simp add: parse_def or_else_def sample_defs)
  have n: "ToString (sample_runtime []) (or_else (get_prop (Obj []) ''name'') (Str ''Producto''))
      = Inr ''Producto''"
    and c: "ToString (sample_runtime []) (or_else (get_prop (Obj []) ''category'') (Str ''N/D''))
      = Inr ''N/D''"
    and d: "ToString (sample_runtime []) (or_else (get_prop (Obj []) ''description'')
        (Str (''Descripci'' @ CHR 0xF3 # ''n no provista'')))
      = Inr (''Descripci'' @ CHR 0xF3 # ''n no provista'')"
    and s: "ToString (sample_runtime []) (or_else (get_prop (Obj []) ''salesSummary'') (Str ''N/D''))
      = Inr ''N/D''"
    by (simp_all add: or_else_def)
  show ?thesis
    using insight_mock_without_key [OF k, of "sample_runtime []" "post_event Undefined" "[]"
        "Obj []" "''Producto''" "''N/D''" "''Descripci'' @ CHR 0xF3 # ''n no provista''" "''N/D''"]
      k p n c d s
    by (cases "insight_handler (sample_runtime []) bare_env (post_event Undefined) []")
       (simp add: nullish_def post_event_def)
qed

text \<open>
  C1 as stated fails.  With no key configured, a body that is not JSON is answered 500
  with the message of the parse exception; a preflight is answered with an empty body;
  the body \<^verbatim>\<open>null\<close> is answered 500 with the message of the engine's TypeError; and
  so is a body whose name is an object with a \<^verbatim>\<open>toString\<close> property, which the
  template cannot convert.  None of the four answers carries mode \<^verbatim>\<open>mock\<close>.
\<close>

theorem insight_mock_counterexample:
  \<open>unset (GEMINI_API_KEY bare_env) \<and>
   insight_handler (sample_runtime []) bare_env (post_event (Str ''{"name":'')) [] =
     (\<lparr>statusCode = 500, headers = Some cors_headers,
       body = ''{"error":"Unexpected end of JSON input"}''\<rparr>, []) \<and>
   insight_handler (sample_runtime []) bare_env
     \<lparr>httpMethod = ''OPTIONS'', event_body = Undefined, queryStringParameters = None\<rparr> [] =
     (\<lparr>statusCode = 200, headers = Some cors_headers, body = []\<rparr>, []) \<and>
   insight_handler (sample_runtime []) bare_env (post_event (Str ''null'')) [] =
     (\<lparr>statusCode = 500, headers = Some cors_headers,
       body = JSON_stringify (sample_runtime [])
         (Obj [(''error'', Str (fault_message (sample_runtime []) Destructure_nullish))])\<rparr>, []) \<and>
   insight_handler (sample_runtime []) bare_env (post_event (Str ''{"name":{"toString":1}}'')) [] =
     (\<lparr>statusCode = 500, headers = Some cors_headers,
       body = ''{"error":"Cannot convert object to primitive value"}''\<rparr>, [])\<close>
  by (simp add: insight_handler_def insight_try_def mock_reply_def mock_analysis_def parse_def
      or_else_def nullish_def cors_response_def unset_def sample_defs)

text \<open>
  C7.  A preflight request is answered 200 with an empty body and the CORS headers,
  whatever the environment and the body, and no outbound call is made.
\<close>

theorem insight_preflight:
  "httpMethod ev = ''OPTIONS'' \<Longrightarrow>
   insight_handler rt en ev calls =
     (\<lparr>statusCode = 200, headers = Some cors_headers, body = []\<rparr>, calls)"
  by (simp add: insight_handler_def cors_response_def)

theorem insight_preflight_witness:
  \<open>insight_handler (sample_runtime []) backend_env
     \<lparr>httpMethod = ''OPTIONS'', event_body = Str ''{"name":'', queryStringParameters = None\<rparr> [] =
   (\<lparr>statusCode = 200, headers = Some cors_headers, body = []\<rparr>, [])\<close>
  using insight_preflight [of "\<lparr>httpMethod = ''OPTIONS'', event_body = Str (''{'' @ CHR 0x22 # ''name'' @ CHR 0x22 # '':''), queryStringParameters = None\<rparr>"
      "sample_runtime []" backend_env "[]"]
  by simp

text \<open>
  C10.  Every response of the insight-generation handler carries the one set of CORS
  headers, in which \<^verbatim>\<open>Access-Control-Allow-Origin\<close> is \<^verbatim>\<open>*\<close>.
\<close>

theorem insight_cors_everywhere:
  "headers (fst (insight_handler rt en ev calls)) = Some cors_headers \<and>
   map_of cors_headers ''Access-Control-Allow-Origin'' = Some ''*''"
  by (auto simp: insight_handler_def cors_response_def cors_headers_def
      dest: insight_try_headers split: prod.splits sum.splits)

theorem insight_cors_everywhere_witness:
  \<open>headers (fst (insight_handler (sample_runtime []) bare_env (post_event (Str ''{"name":'')) []))
     = Some cors_headers \<and>
   map_of cors_headers ''Access-Control-Allow-Origin'' = Some ''*''\<close>
  using insight_cors_everywhere [of "sample_runtime []" bare_env "post_event (Str (''{'' @ CHR 0x22 # ''name'' @ CHR 0x22 # '':''))" "[]"]
  by simp

subsection \<open>Seller creation\<close>

text \<open>
  C2, as the code has it.  A POST that carries an email and a password while the base
  URL or the service key is not configured is answered 500, a server error, with the
  message that environment variables are missing; no outbound call is made.
\<close>

theorem create_seller_unconfigured:
  "httpMethod ev = ''POST'' \<Longrightarrow>
   parse rt (or_else (event_body ev) (Str ''{}'')) = Inr parsed \<Longrightarrow>
   truthy (get_prop parsed ''email'') \<Longrightarrow> truthy (get_prop parsed ''password'') \<Longrightarrow>
   unset (SUPABASE_URL en) \<or> unset (SUPABASE_SERVICE_ROLE_KEY en) \<Longrightarrow>
   create_seller_handler rt en ev calls =
     (json_response rt 500 (Obj [(''error'', Str ''Variables de entorno faltantes'')]), calls)"
  by (simp add: create_seller_handler_def create_seller_try_def truthy_prop_not_nullish
      backend_config_None [symmetric])

theorem create_seller_unconfigured_witness:
  \<open>parse (sample_runtime [])
     (or_else (event_body (post_event (Str ''{"email":"a@b.com","password":"x12345"}''))) (Str ''{}''))
     = Inr (Obj [(''email'', Str ''a@b.com''), (''password'', Str ''x12345'')]) \<and>
   unset (SUPABASE_URL bare_env) \<and>
   create_seller_handler (sample_runtime []) bare_env
     (post_event (Str ''{"email":"a@b.com","password":"x12345"}'')) [] =
   (\<lparr>statusCode = 500, headers = None, body = ''{"error":"Variables de entorno faltantes"}''\<rparr>, [])\<close>
proof -
  let ?ev = \<open>post_event (Str ''{"email":"a@b.com","password":"x12345"}'')\<close>
  let ?parsed = "Obj [(''email'', Str ''a@b.com''), (''password'', Str ''x12345'')]"
  have m: "httpMethod ?ev = ''POST''"
    by (simp add: post_event_def)
  have p: "parse (sample_runtime []) (or_else (event_body ?ev) (Str ''{}'')) = Inr ?parsed"
    by (simp add: parse_def or_else_def sample_defs)
  have e: "truthy (get_prop ?parsed ''email'')" and w: "truthy (get_prop ?parsed ''password'')"
    by simp_all
  have u: "unset (SUPABASE_URL bare_env) \<or> unset (SUPABASE_SERVICE_ROLE_KEY bare_env)"
    by (simp add: unset_def bare_env_def)
  show ?thesis
    using create_seller_unconfigured [OF m p e w u, of "[]"] p
    by (simp add: json_response_def unset_def sample_defs)
qed

text \<open>
  C2 as stated fails: the status for missing backend credentials is 500, which is not
  a client-error status.
\<close>

theorem create_seller_unconfigured_counterexample:
  \<open>unset (SUPABASE_URL bare_env) \<and>
   statusCode (fst (create_seller_handler (sample_runtime []) bare_env
     (post_event (Str ''{"email":"a@b.com","password":"x12345"}'')) [])) = 500 \<and>
   \<not> (400 \<le> statusCode (fst (create_seller_handler (sample_runtime []) bare_env
          (post_event (Str ''{"email":"a@b.com","password":"x12345"}'')) [])) \<and>
      statusCode (fst (create_seller_handler (sample_runtime []) bare_env
          (post_event (Str ''{"email":"a@b.com","password":"x12345"}'')) [])) \<le> 499)\<close>
  by (simp add: create_seller_handler_def create_seller_try_def parse_def or_else_def
      nullish_def backend_config_def json_response_def unset_def sample_defs)

text \<open>
  C3, as the code has it.  A POST whose body (\<^verbatim>\<open>{}\<close> standing in for an absent or
  empty one) parses to a JSON value other than \<^verbatim>\<open>null\<close> in which the email or the
  password is absent, empty or otherwise falsy is answered 400, and no outbound call
  is made.
\<close>

theorem create_seller_missing_fields:
  "httpMethod ev = ''POST'' \<Longrightarrow>
   parse rt (or_else (event_body ev) (Str ''{}'')) = Inr parsed \<Longrightarrow> \<not> nullish parsed \<Longrightarrow>
   \<not> truthy (get_prop parsed ''email'') \<or> \<not> truthy (get_prop parsed ''password'') \<Longrightarrow>
   create_seller_handler rt en ev calls =
     (json_response rt 400 (Obj [(''error'', Str msg_missing_fields)]), calls)"
  by (auto simp: create_seller_handler_def create_seller_try_def)

theorem create_seller_missing_fields_witness:
  \<open>parse (sample_runtime [])
     (or_else (event_body (post_event (Str ''{"email":"a@b.com"}''))) (Str ''{}''))
     = Inr (Obj [(''email'', Str ''a@b.com'')]) \<and>
   \<not> truthy (get_prop (Obj [(''email'', Str ''a@b.com'')]) ''password'') \<and>
   create_seller_handler (sample_runtime []) backend_env
     (post_event (Str ''{"email":"a@b.com"}'')) [] =
   (\<lparr>statusCode = 400, headers = None,
     body = JSON_stringify (sample_runtime []) (Obj [(''error'', Str msg_missing_fields)])\<rparr>, [])\<close>
proof -
  let ?ev = \<open>post_event (Str ''{"email":"a@b.com"}'')\<close>
  let ?parsed = "Obj [(''email'', Str ''a@b.com'')]"
  have m: "httpMethod ?ev = ''POST''"
    by (simp add: post_event_def)
  have p: "parse (sample_runtime []) (or_else (event_body ?ev) (Str ''{}'')) = Inr ?parsed"
    by (simp add: parse_def or_else_def sample_defs)
  have n: "\<not> nullish ?parsed"
    by (simp add: nullish_def)
  have f: "\<not> truthy (get_prop ?parsed ''email'') \<or> \<not> truthy (get_prop ?parsed ''password'')"
    by simp
  show ?thesis
    using create_seller_missing_fields [OF m p n f, of backend_env "[]"] p
    by (simp add: json_response_def)
qed

text \<open>
  C3 as stated fails: the body \<^verbatim>\<open>null\<close> parses, to a value that has neither field,
  and the answer is 500 with the message of the engine's TypeError.
\<close>

theorem create_seller_missing_fields_counterexample:
  \<open>JSON_parse (sample_runtime []) ''null'' = Inr Null \<and>
   create_seller_handler (sample_runtime []) backend_env (post_event (Str ''null'')) [] =
   (\<lparr>statusCode = 500, headers = None,
     body = JSON_stringify (sample_runtime [])
       (Obj [(''error'', Str (fault_message (sample_runtime []) Destructure_nullish))])\<rparr>, [])\<close>
  by (simp add: create_seller_handler_def create_seller_try_def parse_def or_else_def
      nullish_def json_response_def sample_defs)

text \<open>
  C8.  A POST whose body is present, a string that is not empty, and is not valid JSON
  is answered 500 with the message of the parse exception (and so not with the 400 of
  missing fields); no outbound call is made.
\<close>

theorem create_seller_malformed_body:
  "httpMethod ev = ''POST'' \<Longrightarrow> event_body ev = Str s \<Longrightarrow> s \<noteq> [] \<Longrightarrow>
   JSON_parse rt s = Inl e \<Longrightarrow>
   create_seller_handler rt en ev calls =
     (json_response rt 500 (Obj [(''error'', Str (message e))]), calls)"
  by (simp add: create_seller_handler_def create_seller_try_def parse_def or_else_def
      and_then_def)

theorem create_seller_malformed_body_witness:
  \<open>JSON_parse (sample_runtime []) ''{"email":'' = Inl (Error ''Unexpected end of JSON input'') \<and>
   create_seller_handler (sample_runtime []) backend_env (post_event (Str ''{"email":'')) [] =
   (\<lparr>statusCode = 500, headers = None, body = ''{"error":"Unexpected end of JSON input"}''\<rparr>, [])\<close>
proof -
  let ?s = \<open>''{"email":''\<close>
  have m: "httpMethod (post_event (Str ?s)) = ''POST''"
    and b: "event_body (post_event (Str ?s)) = Str ?s"
    by (simp_all add: post_event_def)
  have n: "?s \<noteq> []"
    by simp
  have p: "JSON_parse (sample_runtime []) ?s = Inl (Error ''Unexpected end of JSON input'')"
    by (simp add: sample_defs)
  show ?thesis
    using create_seller_malformed_body [OF m b n p, of backend_env "[]"] p
    by (simp add: json_response_def sample_defs)
qed

text \<open>How the run of the handler goes once the creation call has been answered.\<close>

lemma create_seller_after_create:
  assumes "httpMethod ev = ''POST''"
    and "parse rt (or_else (event_body ev) (Str ''{}'')) = Inr parsed"
    and "truthy (get_prop parsed ''email'')" and "truthy (get_prop parsed ''password'')"
    and "backend_config en = Some (u, k)"
    and "fetch rt (calls @ [create_request rt u k (get_prop parsed ''email'')
            (get_prop parsed ''password'')]) = Inr createRes"
  shows "create_seller_try rt en ev calls =
     resolve_and_upsert rt u k (get_prop parsed ''email'') createRes
       (created_id (case res_json rt createRes of Inl _ \<Rightarrow> Obj [] | Inr j \<Rightarrow> j))
       (calls @ [create_request rt u k (get_prop parsed ''email'') (get_prop parsed ''password'')])"
  using assms
  by (simp add: create_seller_try_def create_account_def do_fetch_def truthy_prop_not_nullish
      Let_def)

lemma lookup_account_first:
  "take (Suc (length calls)) (snd (lookup_account rt u k encoded calls)) =
     calls @ [lookup_request u k encoded]"
  by (auto simp: lookup_account_def do_fetch_def snd_upsert_profile split: sum.splits)

lemma lookup_account_unresolvable:
  "fetch rt (calls @ [lookup_request u k encoded]) = Inr lookupRes \<Longrightarrow>
   res_json rt lookupRes = Inr lookupJson \<Longrightarrow> \<not> truthy (looked_up_id lookupJson) \<Longrightarrow>
   lookup_account rt u k encoded calls =
     (Inr (json_response rt 422 (Obj [(''error'', Str ''No se pudo obtener ID de usuario'')])),
      calls @ [lookup_request u k encoded])"
  by (simp add: lookup_account_def do_fetch_def)

lemma lookup_account_no_upsert:
  "\<not> (\<exists>lookupRes lookupJson. fetch rt (calls @ [lookup_request u k encoded]) = Inr lookupRes \<and>
        res_json rt lookupRes = Inr lookupJson \<and> truthy (looked_up_id lookupJson)) \<Longrightarrow>
   snd (lookup_account rt u k encoded calls) = calls @ [lookup_request u k encoded]"
  by (auto simp: lookup_account_def do_fetch_def split: sum.splits)

text \<open>
  C4, as the code has it.  In a run that reaches the account-creation call, let that
  call be answered with status 422, or with a response that yields no identifier (a body
  that is not JSON counting as the empty object), and let the email be convertible to a
  string that \<^verbatim>\<open>encodeURIComponent\<close> accepts.  Then the next outbound call is the
  lookup of accounts by the email.  When the lookup is answered with a JSON body that
  yields no identifier, the handler answers 422 with the error that the user's
  identifier could not be obtained.  And whenever the lookup recovers no identifier,
  be it rejected, answered with a body that is not JSON, or answered without an
  identifier, the creation and the lookup are the only calls of the run: the profile
  upsert is not attempted.
\<close>

theorem conflict_falls_back_to_lookup:
  assumes "httpMethod ev = ''POST''"
    and "parse rt (or_else (event_body ev) (Str ''{}'')) = Inr parsed"
    and "truthy (get_prop parsed ''email'')" and "truthy (get_prop parsed ''password'')"
    and "backend_config en = Some (u, k)"
    and "fetch rt (calls @ [create_request rt u k (get_prop parsed ''email'')
            (get_prop parsed ''password'')]) = Inr createRes"
    and "status createRes = 422 \<or>
         \<not> truthy (created_id (case res_json rt createRes of Inl _ \<Rightarrow> Obj [] | Inr j \<Rightarrow> j))"
    and "ToString rt (get_prop parsed ''email'') = Inr email_text"
    and "encodeURIComponent rt email_text = Inr encoded"
  shows "take (length calls + 2) (snd (create_seller_handler rt en ev calls)) =
           calls @ [create_request rt u k (get_prop parsed ''email'') (get_prop parsed ''password''),
                    lookup_request u k encoded] \<and>
         (fetch rt (calls @ [create_request rt u k (get_prop parsed ''email'')
                               (get_prop parsed ''password''),
                             lookup_request u k encoded]) = Inr lookupRes \<and>
          res_json rt lookupRes = Inr lookupJson \<and> \<not> truthy (looked_up_id lookupJson) \<longrightarrow>
          create_seller_handler rt en ev calls =
            (json_response rt 422 (Obj [(''error'', Str ''No se pudo obtener ID de usuario'')]),
             calls @ [create_request rt u k (get_prop parsed ''email'') (get_prop parsed ''password''),
                      lookup_request u k encoded])) \<and>
         (\<not> (\<exists>res json. fetch rt (calls @ [create_request rt u k (get_prop parsed ''email'')
                                              (get_prop parsed ''password''),
                                            lookup_request u k encoded]) = Inr res \<and>
                 res_json rt res = Inr json \<and> truthy (looked_up_id json)) \<longrightarrow>
          snd (create_seller_handler rt en ev calls) =
            calls @ [create_request rt u k (get_prop parsed ''email'') (get_prop parsed ''password''),
                     lookup_request u k encoded])"
proof -
  let ?email = "get_prop parsed ''email''"
  let ?c = "create_request rt u k ?email (get_prop parsed ''password'')"
  let ?l = "lookup_request u k encoded"
  let ?uid = "created_id (case res_json rt createRes of Inl _ \<Rightarrow> Obj [] | Inr j \<Rightarrow> j)"
  have enc: "encoded_email rt ?email = Inr encoded"
    using assms(8,9) by (simp add: encoded_email_def and_then_def)
  have "create_seller_try rt en ev calls =
      resolve_and_upsert rt u k ?email createRes ?uid (calls @ [?c])"
    using assms(1-6) by (rule create_seller_after_create)
  then have run: "create_seller_try rt en ev calls = lookup_account rt u k encoded (calls @ [?c])"
    using assms(7) by (auto simp: resolve_and_upsert_def enc)
  have log: "snd (create_seller_handler rt en ev calls) = snd (create_seller_try rt en ev calls)"
    using assms(1) by (simp add: create_seller_handler_def split: prod.splits sum.splits)
  have first: "take (length calls + 2) (snd (create_seller_handler rt en ev calls)) =
      calls @ [?c, ?l]"
    using lookup_account_first [of "calls @ [?c]" rt u k encoded]
    by (simp add: log run)
  have second: "create_seller_handler rt en ev calls =
      (json_response rt 422 (Obj [(''error'', Str ''No se pudo obtener ID de usuario'')]),
       calls @ [?c, ?l])"
    if "fetch rt (calls @ [?c, ?l]) = Inr lookupRes"
      and "res_json rt lookupRes = Inr lookupJson" and "\<not> truthy (looked_up_id lookupJson)"
    using lookup_account_unresolvable [of rt "calls @ [?c]" u k encoded lookupRes lookupJson]
      that assms(1)
    by (simp add: create_seller_handler_def run)
  have third: "snd (create_seller_handler rt en ev calls) = calls @ [?c, ?l]"
    if "\<not> (\<exists>res json. fetch rt (calls @ [?c, ?l]) = Inr res \<and>
              res_json rt res = Inr json \<and> truthy (looked_up_id json))"
    using lookup_account_no_upsert [of rt "calls @ [?c]" u k encoded] that
    by (simp add: log run)
  from first second third show ?thesis by blast
qed

theorem conflict_falls_back_to_lookup_witness:
  \<open>ToString
     (sample_runtime
        [Inr \<lparr>status = 422, body_text = Inr ''{"code":422,"msg":"email_exists"}''\<rparr>,
         Inr \<lparr>status = 200, body_text = Inr ''{"users":[]}''\<rparr>])
     (Str ''a@b.com'') = Inr ''a@b.com'' \<and>
   encodeURIComponent
     (sample_runtime
        [Inr \<lparr>status = 422, body_text = Inr ''{"code":422,"msg":"email_exists"}''\<rparr>,
         Inr \<lparr>status = 200, body_text = Inr ''{"users":[]}''\<rparr>])
     ''a@b.com'' = Inr ''a%40b.com'' \<and>
   create_seller_handler
     (sample_runtime
        [Inr \<lparr>status = 422, body_text = Inr ''{"code":422,"msg":"email_exists"}''\<rparr>,
         Inr \<lparr>status = 200, body_text = Inr ''{"users":[]}''\<rparr>])
     backend_env (post_event (Str ''{"email":"a@b.com","password":"x12345"}'')) [] =
   (\<lparr>statusCode = 422, headers = None, body = ''{"error":"No se pudo obtener ID de usuario"}''\<rparr>,
    [\<lparr>url = ''https://xyz.supabase.co/auth/v1/admin/users'', method = Some ''POST'',
      req_headers = [(''apikey'', ''service-key''), (''Authorization'', ''Bearer service-key''),
                     (''Content-Type'', ''application/json'')],
      req_body = Some ''{"email":"a@b.com","password":"x12345","email_confirm":true}''\<rparr>,
     \<lparr>url = ''https://xyz.supabase.co/auth/v1/admin/users?email=a%40b.com'', method = None,
      req_headers = [(''apikey'', ''service-key''), (''Authorization'', ''Bearer service-key'')],
      req_body = None\<rparr>])\<close>
proof -
  let ?rt = \<open>sample_runtime
        [Inr \<lparr>status = 422, body_text = Inr ''{"code":422,"msg":"email_exists"}''\<rparr>,
         Inr \<lparr>status = 200, body_text = Inr ''{"users":[]}''\<rparr>]\<close>
  let ?ev = \<open>post_event (Str ''{"email":"a@b.com","password":"x12345"}'')\<close>
  let ?parsed = "Obj [(''email'', Str ''a@b.com''), (''password'', Str ''x12345'')]"
  let ?u = "''https://xyz.supabase.co''" and ?k = "''service-key''"
  let ?createRes = \<open>\<lparr>status = 422, body_text = Inr ''{"code":422,"msg":"email_exists"}''\<rparr>\<close>
  let ?lookupRes = \<open>\<lparr>status = 200, body_text = Inr ''{"users":[]}''\<rparr>\<close>
  let ?lookupJson = "Obj [(''users'', Arr [])]"
  have m: "httpMethod ?ev = ''POST''"
    by (simp add: post_event_def)
  have p: "parse ?rt (or_else (event_body ?ev) (Str ''{}'')) = Inr ?parsed"
    by (simp add: parse_def or_else_def sample_defs)
  have e: "truthy (get_prop ?parsed ''email'')" and w: "truthy (get_prop ?parsed ''password'')"
    by simp_all
  have c: "fetch ?rt ([] @ [create_request ?rt ?u ?k (get_prop ?parsed ''email'')
      (get_prop ?parsed ''password'')]) = Inr ?createRes"
    by (simp add: sample_defs)
  have s: "status ?createRes = 422 \<or>
      \<not> truthy (created_id (case res_json ?rt ?createRes of Inl _ \<Rightarrow> Obj [] | Inr j \<Rightarrow> j))"
    by simp
  have t: "ToString ?rt (get_prop ?parsed ''email'') = Inr ''a@b.com''"
    by simp
  have t': "ToString ?rt (Str ''a@b.com'') = Inr ''a@b.com''"
    by simp
  have x: "encodeURIComponent ?rt ''a@b.com'' = Inr ''a%40b.com''"
    by (simp add: sample_encode_def encode_char_def unreserved_def percent_def hex_digit_def
        sample_defs)
  have l: "fetch ?rt ([] @ [create_request ?rt ?u ?k (get_prop ?parsed ''email'')
        (get_prop ?parsed ''password''), lookup_request ?u ?k ''a%40b.com''])
      = Inr ?lookupRes"
    by (simp add: sample_defs)
  have j: "res_json ?rt ?lookupRes = Inr ?lookupJson"
    by (simp add: res_json_def sample_defs)
  have n: "\<not> truthy (looked_up_id ?lookupJson)"
    by (simp add: looked_up_id_def or_else_def opt_prop_def nullish_def)
  have "create_seller_handler ?rt backend_env ?ev [] =
      (json_response ?rt 422 (Obj [(''error'', Str ''No se pudo obtener ID de usuario'')]),
       [] @ [create_request ?rt ?u ?k (get_prop ?parsed ''email'') (get_prop ?parsed ''password''),
             lookup_request ?u ?k ''a%40b.com''])"
    using conflict_falls_back_to_lookup [OF m p e w backend_config_backend_env c s t x,
        of ?lookupRes ?lookupJson] l j n
    by blast
  then show ?thesis
    using t' x
    by (simp add: json_response_def create_request_def lookup_request_def auth_headers_def
        sample_defs)
qed

text \<open>
  C4 as stated fails in two ways, both through the handler's catch-all.  After a
  creation answered 422, an email that is an object with a \<^verbatim>\<open>toString\<close> property
  (truthy, so it passes line 31) makes \<^verbatim>\<open>encodeURIComponent\<close> throw: the creation is
  the only call, no lookup is made, and the answer is 500.  And a lookup answered with
  a body that is not JSON yields no identifier, yet the answer is 500 with the message
  of the parse exception, not 422.
\<close>

theorem conflict_falls_back_to_lookup_counterexample:
  \<open>create_seller_handler
     (sample_runtime
        [Inr \<lparr>status = 422, body_text = Inr ''{"code":422,"msg":"email_exists"}''\<rparr>,
         Inr \<lparr>status = 200, body_text = Inr ''{"users":[]}''\<rparr>])
     backend_env (post_event (Str ''{"email":{"toString":1},"password":"x12345"}'')) [] =
   (\<lparr>statusCode = 500, headers = None,
      body = ''{"error":"Cannot convert object to primitive value"}''\<rparr>,
    [create_request
       (sample_runtime
          [Inr \<lparr>status = 422, body_text = Inr ''{"code":422,"msg":"email_exists"}''\<rparr>,
           Inr \<lparr>status = 200, body_text = Inr ''{"users":[]}''\<rparr>])
       ''https://xyz.supabase.co'' ''service-key''
       (Obj [(''toString'', Num (Finite 1))]) (Str ''x12345'')]) \<and>
   create_seller_handler
     (sample_runtime
        [Inr \<lparr>status = 422, body_text = Inr ''{"code":422,"msg":"email_exists"}''\<rparr>,
         Inr \<lparr>status = 502, body_text = Inr ''Bad Gateway''\<rparr>])
     backend_env (post_event (Str ''{"email":"a@b.com","password":"x12345"}'')) [] =
   (\<lparr>statusCode = 500, headers = None,
      body = ''{"error":"Unexpected token B in JSON at position 0"}''\<rparr>,
    [create_request
       (sample_runtime
          [Inr \<lparr>status = 422, body_text = Inr ''{"code":422,"msg":"email_exists"}''\<rparr>,
           Inr \<lparr>status = 502, body_text = Inr ''Bad Gateway''\<rparr>])
       ''https://xyz.supabase.co'' ''service-key'' (Str ''a@b.com'') (Str ''x12345''),
     lookup_request ''https://xyz.supabase.co'' ''service-key'' ''a%40b.com''])\<close>
  by (simp add: create_seller_handler_def create_seller_try_def create_account_def
      resolve_and_upsert_def lookup_account_def encoded_email_def do_fetch_def res_json_def
      parse_def or_else_def nullish_def backend_config_def unset_def json_response_def
      sample_encode_def encode_char_def unreserved_def percent_def hex_digit_def sample_defs)

subsection \<open>Seller management\<close>

text \<open>
  C9.  When the base URL or the service key is not configured, the handler answers 500
  whatever the method, also for a method that would otherwise get 405, and makes no
  outbound call.
\<close>

theorem manage_seller_unconfigured:
  "unset (SUPABASE_URL en) \<or> unset (SUPABASE_SERVICE_ROLE_KEY en) \<Longrightarrow>
   manage_seller_handler rt en ev calls =
     (Inr (json_response rt 500
        (Obj [(''message'', Str ''Faltan variables de entorno SUPABASE_URL o SERVICE_ROLE_KEY'')])),
      calls)"
  by (simp add: manage_seller_handler_def backend_config_None [symmetric])

theorem manage_seller_unconfigured_witness:
  \<open>unset (SUPABASE_URL bare_env) \<and>
   manage_seller_handler (sample_runtime []) bare_env
     \<lparr>httpMethod = ''TRACE'', event_body = Null, queryStringParameters = None\<rparr> [] =
   (Inr \<lparr>statusCode = 500, headers = None,
         body = ''{"message":"Faltan variables de entorno SUPABASE_URL o SERVICE_ROLE_KEY"}''\<rparr>,
    [])\<close>
proof -
  have u: "unset (SUPABASE_URL bare_env) \<or> unset (SUPABASE_SERVICE_ROLE_KEY bare_env)"
    by (simp add: unset_def bare_env_def)
  show ?thesis
    using manage_seller_unconfigured [OF u, of "sample_runtime []"
        "\<lparr>httpMethod = ''TRACE'', event_body = Null, queryStringParameters = None\<rparr>" "[]"]
    by (simp add: json_response_def unset_def sample_defs)
qed

text \<open>
  C6.  With the backend configured, a DELETE whose query parameters have no \<^verbatim>\<open>id\<close>,
  or an empty one, is answered 400 with the message \<^verbatim>\<open>id es obligatorio para eliminar\<close>,
  and no outbound call is made.
\<close>

theorem delete_without_id:
  "backend_config en = Some (u, k) \<Longrightarrow> httpMethod ev = ''DELETE'' \<Longrightarrow> unset (query_id ev) \<Longrightarrow>
   manage_seller_handler rt en ev calls =
     (Inr (json_response rt 400 (Obj [(''message'', Str ''id es obligatorio para eliminar'')])),
      calls)"
  by (simp add: manage_seller_handler_def delete_seller_def unset_def split: option.splits)

theorem delete_without_id_witness:
  \<open>unset (query_id \<lparr>httpMethod = ''DELETE'', event_body = Null,
                     queryStringParameters = Some [''page'' \<mapsto> ''2'']\<rparr>) \<and>
   manage_seller_handler (sample_runtime []) backend_env
     \<lparr>httpMethod = ''DELETE'', event_body = Null,
      queryStringParameters = Some [''page'' \<mapsto> ''2'']\<rparr> [] =
   (Inr \<lparr>statusCode = 400, headers = None,
         body = ''{"message":"id es obligatorio para eliminar"}''\<rparr>, [])\<close>
proof -
  let ?ev = "\<lparr>httpMethod = ''DELETE'', event_body = Null,
              queryStringParameters = Some [''page'' \<mapsto> ''2'']\<rparr>"
  have m: "httpMethod ?ev = ''DELETE''"
    by simp
  have q: "unset (query_id ?ev)"
    by (simp add: unset_def query_id_def)
  show ?thesis
    using delete_without_id [OF backend_config_backend_env m q, of "sample_runtime []" "[]"] q
    by (simp add: json_response_def sample_defs)
qed

lemma collect_sellers_join:
  assumes "length uids = length sellers" and "length lookups = length sellers"
    and "\<forall>s\<in>set sellers. \<not> nullish s"
    and "\<forall>i<length sellers. ToString rt (get_prop (sellers ! i) ''id'') = Inr (uids ! i)"
    and "\<forall>i<length sellers.
           fst (requestSupabase rt (user_request u k (uids ! i))
                  (calls @ lookup_calls u k (take i uids))) = Inr (lookups ! i)"
  shows "collect_sellers rt u k sellers result calls =
           (Inr (result @ seller_pairs sellers lookups), calls @ lookup_calls u k uids)"
  using assms
proof (induction sellers arbitrary: uids lookups result calls)
  case Nil
  then show ?case
    by (simp add: seller_pairs_def lookup_calls_def)
next
  case (Cons s ss)
  from Cons.prems(1) obtain x xs where ux: "uids = x # xs"
    by (cases uids) auto
  from Cons.prems(2) obtain l ls where lk: "lookups = l # ls"
    by (cases lookups) auto
  let ?req = "user_request u k x"
  from Cons.prems(4) have "ToString rt (get_prop ((s # ss) ! 0) ''id'') = Inr (uids ! 0)"
    by blast
  then have conv: "ToString rt (get_prop s ''id'') = Inr x"
    by (simp add: ux)
  from Cons.prems(5) have "fst (requestSupabase rt (user_request u k (uids ! 0))
      (calls @ lookup_calls u k (take 0 uids))) = Inr (lookups ! 0)"
    by blast
  then have first: "fst (requestSupabase rt ?req calls) = Inr l"
    by (simp add: ux lk lookup_calls_def)
  have step: "requestSupabase rt ?req calls = (Inr l, calls @ [?req])"
    using first snd_requestSupabase [of rt ?req calls]
    by (cases "requestSupabase rt ?req calls") simp
  have convs: "\<forall>i<length ss. ToString rt (get_prop (ss ! i) ''id'') = Inr (xs ! i)"
  proof (intro allI impI)
    fix i
    assume "i < length ss"
    then have "Suc i < length (s # ss)"
      by simp
    with Cons.prems(4) have "ToString rt (get_prop ((s # ss) ! Suc i) ''id'') = Inr (uids ! Suc i)"
      by blast
    then show "ToString rt (get_prop (ss ! i) ''id'') = Inr (xs ! i)"
      by (simp add: ux)
  qed
  have rest: "\<forall>i<length ss.
      fst (requestSupabase rt (user_request u k (xs ! i))
             ((calls @ [?req]) @ lookup_calls u k (take i xs))) = Inr (ls ! i)"
  proof (intro allI impI)
    fix i
    assume "i < length ss"
    then have "Suc i < length (s # ss)"
      by simp
    with Cons.prems(5)
    have "fst (requestSupabase rt (user_request u k (uids ! Suc i))
        (calls @ lookup_calls u k (take (Suc i) uids))) = Inr (lookups ! Suc i)"
      by blast
    then show "fst (requestSupabase rt (user_request u k (xs ! i))
        ((calls @ [?req]) @ lookup_calls u k (take i xs))) = Inr (ls ! i)"
      by (simp add: ux lk lookup_calls_def)
  qed
  have len: "length xs = length ss" "length ls = length ss"
    and nn: "\<forall>y\<in>set ss. \<not> nullish y"
    using Cons.prems(1,2,3) by (simp_all add: ux lk)
  have ih: "collect_sellers rt u k ss acc (calls @ [?req]) =
      (Inr (acc @ seller_pairs ss ls), (calls @ [?req]) @ lookup_calls u k xs)" for acc
    using len nn convs rest by (rule Cons.IH)
  from Cons.prems(3) have s: "\<not> nullish s"
    by simp
  show ?case
    by (auto simp: s conv step ih ux lk seller_pairs_def lookup_calls_def lookup_succeeded_def
        Let_def)
qed

text \<open>
  C5, as the code has it.  With the backend configured, take a GET whose profile query
  is answered with a success status and a JSON array of profile records (values that
  are not nullish), each with an identifier that can be converted to a string, and
  whose account lookups are all answered, the i-th with \<open>lookups ! i\<close>.  The handler
  answers 200 with the join of the records and the lookups: in the order of the profile
  query, the pair of identifier and email of each profile whose lookup was answered
  with a success status and a truthy body, the others being left out without an error.
  Its outbound calls are the profile query and one lookup for each record; with no
  record the answer is the empty sequence.
\<close>

theorem list_sellers_join:
  assumes "backend_config en = Some (u, k)" and "httpMethod ev = ''GET''"
    and "fetch rt (calls @ [profiles_request u k]) = Inr res" and "ok res"
    and "body_text res = Inr txt" and "JSON_parse rt txt = Inr (Arr sellers)"
    and "\<forall>s\<in>set sellers. \<not> nullish s"
    and "length uids = length sellers"
    and "\<forall>i<length sellers. ToString rt (get_prop (sellers ! i) ''id'') = Inr (uids ! i)"
    and "length lookups = length sellers"
    and "\<forall>i<length sellers.
           fst (requestSupabase rt (user_request u k (uids ! i))
                  ((calls @ [profiles_request u k]) @ lookup_calls u k (take i uids)))
             = Inr (lookups ! i)"
  shows "manage_seller_handler rt en ev calls =
           (Inr (json_response rt 200 (Arr (seller_pairs sellers lookups))),
            (calls @ [profiles_request u k]) @ lookup_calls u k uids) \<and>
         (sellers = [] \<longrightarrow>
            fst (manage_seller_handler rt en ev calls) = Inr (json_response rt 200 (Arr [])))"
proof -
  have profiles: "requestSupabase rt (profiles_request u k) calls =
      (Inr \<lparr>res_status = status res, res_ok = True, res_data = Arr sellers\<rparr>,
       calls @ [profiles_request u k])"
    using assms(3-6) by (simp add: requestSupabase_def do_fetch_def)
  have loop: "collect_sellers rt u k sellers [] (calls @ [profiles_request u k]) =
      (Inr ([] @ seller_pairs sellers lookups),
       (calls @ [profiles_request u k]) @ lookup_calls u k uids)"
    using assms(8,10,7,9,11) by (rule collect_sellers_join)
  have run: "manage_seller_handler rt en ev calls =
      (Inr (json_response rt 200 (Arr (seller_pairs sellers lookups))),
       (calls @ [profiles_request u k]) @ lookup_calls u k uids)"
    using assms(1,2) by (simp add: manage_seller_handler_def list_sellers_def profiles loop)
  then show ?thesis
    by (auto simp: seller_pairs_def)
qed

theorem list_sellers_join_witness:
  \<open>manage_seller_handler
     (sample_runtime
        [Inr \<lparr>status = 200, body_text = Inr ''[{"id":"u1"},{"id":"u2"},{"id":"u3"}]''\<rparr>,
         Inr \<lparr>status = 200, body_text = Inr ''{"id":"u1","email":"ana@shop.com"}''\<rparr>,
         Inr \<lparr>status = 404, body_text = Inr ''User not found''\<rparr>,
         Inr \<lparr>status = 200, body_text = Inr ''{"id":"u3","email":"luis@shop.com"}''\<rparr>])
     backend_env \<lparr>httpMethod = ''GET'', event_body = Null, queryStringParameters = None\<rparr> [] =
   (Inr \<lparr>statusCode = 200, headers = None,
         body = ''[{"id":"u1","email":"ana@shop.com"},{"id":"u3","email":"luis@shop.com"}]''\<rparr>,
    map (\<lambda>path. \<lparr>url = ''https://xyz.supabase.co'' @ path, method = Some ''GET'',
                  req_headers = [(''apikey'', ''service-key''),
                                 (''Authorization'', ''Bearer service-key''),
                                 (''Content-Type'', ''application/json'')],
                  req_body = None\<rparr>)
      [''/rest/v1/profiles?role=eq.seller&select=id'', ''/auth/v1/admin/users/u1'',
       ''/auth/v1/admin/users/u2'', ''/auth/v1/admin/users/u3''])\<close>
proof -
  let ?res = \<open>\<lparr>status = 200, body_text = Inr ''[{"id":"u1"},{"id":"u2"},{"id":"u3"}]''\<rparr>\<close>
  let ?rt = \<open>sample_runtime
        [Inr ?res,
         Inr \<lparr>status = 200, body_text = Inr ''{"id":"u1","email":"ana@shop.com"}''\<rparr>,
         Inr \<lparr>status = 404, body_text = Inr ''User not found''\<rparr>,
         Inr \<lparr>status = 200, body_text = Inr ''{"id":"u3","email":"luis@shop.com"}''\<rparr>]\<close>
  let ?ev = "\<lparr>httpMethod = ''GET'', event_body = Null, queryStringParameters = None\<rparr>"
  let ?u = "''https://xyz.supabase.co''" and ?k = "''service-key''"
  let ?sellers = "[Obj [(''id'', Str ''u1'')], Obj [(''id'', Str ''u2'')], Obj [(''id'', Str ''u3'')]]"
  let ?uids = "[''u1'', ''u2'', ''u3'']"
  let ?lookups =
    "[\<lparr>res_status = 200, res_ok = True,
       res_data = Obj [(''id'', Str ''u1''), (''email'', Str ''ana@shop.com'')]\<rparr>,
      \<lparr>res_status = 404, res_ok = False, res_data = Str ''User not found''\<rparr>,
      \<lparr>res_status = 200, res_ok = True,
       res_data = Obj [(''id'', Str ''u3''), (''email'', Str ''luis@shop.com'')]\<rparr>]"
  have m: "httpMethod ?ev = ''GET''"
    by simp
  have f: "fetch ?rt ([] @ [profiles_request ?u ?k]) = Inr ?res"
    by (simp add: sample_defs)
  have o: "ok ?res"
    by (simp add: ok_def)
  have t: \<open>body_text ?res = Inr ''[{"id":"u1"},{"id":"u2"},{"id":"u3"}]''\<close>
    by simp
  have p: \<open>JSON_parse ?rt ''[{"id":"u1"},{"id":"u2"},{"id":"u3"}]'' = Inr (Arr ?sellers)\<close>
    by (simp add: sample_defs)
  have n: "\<forall>s\<in>set ?sellers. \<not> nullish s"
    by (simp add: nullish_def)
  have lu: "length ?uids = length ?sellers" and len: "length ?lookups = length ?sellers"
    by simp_all
  have c: "\<forall>i<length ?sellers. ToString ?rt (get_prop (?sellers ! i) ''id'') = Inr (?uids ! i)"
    by (simp add: All_less_Suc)
  have l: "\<forall>i<length ?sellers.
      fst (requestSupabase ?rt (user_request ?u ?k (?uids ! i))
             (([] @ [profiles_request ?u ?k]) @ lookup_calls ?u ?k (take i ?uids)))
        = Inr (?lookups ! i)"
    by (simp add: All_less_Suc requestSupabase_def do_fetch_def lookup_calls_def ok_def
        sample_defs)
  show ?thesis
    using list_sellers_join [OF backend_config_backend_env m f o t p n lu c len l]
    by (simp add: json_response_def seller_pairs_def lookup_succeeded_def lookup_calls_def
        profiles_request_def user_request_def json_headers_def auth_headers_def sample_defs)
qed

text \<open>
  C5 as stated fails: nothing is caught in this handler.  When the account lookup of a
  profile is rejected, here the third call of the run, the handler does not answer 200
  with that profile left out: its promise rejects with the exception of the fetch.
  And when the identifier of a record is an object with a \<^verbatim>\<open>toString\<close> property, the
  template of line 47 throws and the promise rejects after the profile query.
\<close>

theorem list_sellers_join_counterexample:
  \<open>manage_seller_handler
     (sample_runtime
        [Inr \<lparr>status = 200, body_text = Inr ''[{"id":"u1"},{"id":"u2"},{"id":"u3"}]''\<rparr>,
         Inr \<lparr>status = 200, body_text = Inr ''{"id":"u1","email":"ana@shop.com"}''\<rparr>,
         Inl (Error ''fetch failed'')])
     backend_env \<lparr>httpMethod = ''GET'', event_body = Null, queryStringParameters = None\<rparr> [] =
   (Inl (Error ''fetch failed''),
    [profiles_request ''https://xyz.supabase.co'' ''service-key'',
     user_request ''https://xyz.supabase.co'' ''service-key'' ''u1'',
     user_request ''https://xyz.supabase.co'' ''service-key'' ''u2'']) \<and>
   manage_seller_handler
     (sample_runtime [Inr \<lparr>status = 200, body_text = Inr ''[{"id":{"toString":1}}]''\<rparr>])
     backend_env \<lparr>httpMethod = ''GET'', event_body = Null, queryStringParameters = None\<rparr> [] =
   (Inl (Error ''Cannot convert object to primitive value''),
    [profiles_request ''https://xyz.supabase.co'' ''service-key''])\<close>
  by (simp add: manage_seller_handler_def list_sellers_def requestSupabase_def do_fetch_def
      backend_config_def unset_def ok_def nullish_def sample_defs)

end
